theory Spec2Isabelle
  imports Complex_Main
begin

section \<open>Python string operations used by \<open>book_search.py\<close>\<close>

text \<open>
  A Python \<open>str\<close> is modelled as a \<open>string\<close>, one \<open>char\<close> per character. The model is
  exact on ASCII text, which is what ISBNs and the other identifiers are: \<open>whitespace\<close>
  lists the ASCII characters for which \<open>str.isspace\<close> holds (the ones \<open>str.strip()\<close>
  removes), and \<open>upper_char\<close> is \<open>str.upper\<close> on one ASCII character. Characters
  outside ASCII are left alone by the model.
\<close>

definition whitespace :: "char list" where
  "whitespace = [CHR 0x09, CHR 0x0A, CHR 0x0B, CHR 0x0C, CHR 0x0D,
                 CHR 0x1C, CHR 0x1D, CHR 0x1E, CHR 0x1F, CHR 0x20]"

definition isspace :: "char \<Rightarrow> bool" where
  "isspace c = (c \<in> set whitespace)"

definition upper_char :: "char \<Rightarrow> char" where
  "upper_char c =
     (case map_of (zip ''abcdefghijklmnopqrstuvwxyz'' ''ABCDEFGHIJKLMNOPQRSTUVWXYZ'') c of
        None \<Rightarrow> c
      | Some u \<Rightarrow> u)"

definition upper :: "string \<Rightarrow> string" where
  "upper s = map upper_char s"

definition lstrip :: "string \<Rightarrow> string" where
  "lstrip s = dropWhile isspace s"

definition rstrip :: "string \<Rightarrow> string" where
  "rstrip s = rev (dropWhile isspace (rev s))"

text \<open>\<open>s.strip()\<close>: leading and trailing whitespace removed.\<close>

definition strip :: "string \<Rightarrow> string" where
  "strip s = lstrip (rstrip s)"

text \<open>\<open>s.rjust(width, fillchar)\<close>: \<open>s\<close> itself when it is already \<open>width\<close> long or longer.\<close>

definition rjust :: "nat \<Rightarrow> char \<Rightarrow> string \<Rightarrow> string" where
  "rjust width fillchar s = replicate (width - length s) fillchar @ s"

text \<open>
  The expression \<open>query.strip().upper().rjust(10, "0")\<close>, which \<open>isbn_search\<close> (line 61)
  and \<open>search_identifiers\<close> (line 91, as \<open>normalized_isbn\<close>) both evaluate.
\<close>

definition normalized_isbn :: "string \<Rightarrow> string" where
  "normalized_isbn query = rjust 10 (CHR ''0'') (upper (strip query))"

section \<open>The catalog\<close>

text \<open>
  Modelled from the spec: the class \<open>models.Edition\<close>, which the source file imports and
  does not define. The record holds the columns that \<open>book_search.py\<close> reads: the
  primary key, \<open>title\<close>, \<open>remote_id\<close>, \<open>author_text\<close>, the optional \<open>published_date\<close> and
  \<open>cover\<close>, the parent Work (every Edition has exactly one), \<open>isbn_10\<close> and \<open>isbn_13\<close>,
  and the remaining identifier columns by name in \<open>other_identifiers\<close> (a name that is
  absent is NULL). A nullable column is an \<open>option\<close>. The \<open>search_vector\<close> column is read
  by the database's text search only, which the model takes as functions of the whole
  row (\<open>ts_match\<close> and \<open>ts_rank\<close> below).
\<close>

type_synonym date = "int \<times> nat \<times> nat"

definition year :: "date \<Rightarrow> int" where
  "year d = fst d"

record edition =
  pk :: nat
  title :: string
  remote_id :: string
  author_text :: string
  published_date :: "date option"
  cover :: "string option"
  parent_work :: nat
  isbn_10 :: "string option"
  isbn_13 :: "string option"
  other_identifiers :: "(string \<times> string) list"

text \<open>
  The state of the database that the queries read: the rows of the Edition table, in
  the order in which a query without \<open>order_by\<close> returns them, and the rows of the
  ShelfBook table as pairs (user, primary key of the book).
\<close>

record catalog =
  editions :: "edition list"
  shelfbooks :: "(nat \<times> nat) list"

text \<open>The value of a column named by a string, as \<open>Q(**{name: value})\<close> reads it.\<close>

definition column :: "string \<Rightarrow> edition \<Rightarrow> string option" where
  "column f e =
     (if f = ''isbn_10'' then isbn_10 e
      else if f = ''isbn_13'' then isbn_13 e
      else if f = ''remote_id'' then Some (remote_id e)
      else map_of (other_identifiers e) f)"

text \<open>
  Python values that end up in a result: \<open>None\<close>, a \<open>str\<close>, an \<open>int\<close>, a \<open>float\<close>.
\<close>

datatype pyval = PyNone | PyStr string | PyInt int | PyFloat real

text \<open>
  A row of a result: the Edition and its \<open>rank\<close> annotation (\<open>None\<close> when the object has
  no attribute \<open>rank\<close>). What a function of the file returns: the Python list \<open>[]\<close>, a
  QuerySet, or the outcome of \<open>.first()\<close> (an object or \<open>None\<close>). A QuerySet is lazy; the
  model gives it as the rows it yields when it is evaluated, and an error of that
  evaluation as the outcome of the function that built the QuerySet.
\<close>

type_synonym row = "edition \<times> pyval option"

datatype result = EmptyList | QuerySet "row list" | Instance "row option"

definition plain :: "edition list \<Rightarrow> row list" where
  "plain es = map (\<lambda>e. (e, None)) es"

text \<open>Python truthiness of a result, as \<open>if not results\<close> (line 47) tests it.\<close>

fun truthy :: "result \<Rightarrow> bool" where
  "truthy EmptyList = False"
| "truthy (QuerySet rows) = (rows \<noteq> [])"
| "truthy (Instance None) = False"
| "truthy (Instance (Some r)) = True"

section \<open>External collaborators\<close>

text \<open>
  What \<open>book_search.py\<close> imports and the source file does not define, taken as
  parameters: \<open>connectors.maybe_isbn\<close>; the names of the Edition fields whose
  \<open>deduplication_field\<close> flag is set, in the order of \<open>Edition._meta.get_fields()\<close>; the
  database's text search, \<open>ts_match query e\<close> for the condition \<open>search_vector=query\<close>
  (where \<open>query\<close> is the "simple" and the "english" \<open>SearchQuery\<close> joined by \<open>|\<close>) and
  \<open>ts_rank query e\<close> for \<open>SearchRank(F("search_vector"), query)\<close>; and the setting
  \<open>MEDIA_FULL_URL\<close>.
\<close>

record engine =
  maybe_isbn :: "string \<Rightarrow> bool"
  deduplication_fields :: "string list"
  ts_match :: "string \<Rightarrow> edition \<Rightarrow> bool"
  ts_rank :: "string \<Rightarrow> edition \<Rightarrow> real"
  MEDIA_FULL_URL :: string

section \<open>The query interface\<close>

text \<open>
  The exceptions the modelled code can raise: \<open>reduce\<close> of an empty sequence without an
  initial value is a \<open>TypeError\<close>; a subquery used as an expression that yields more
  than one row is refused by the database (PostgreSQL's cardinality violation, which
  Django raises as \<open>ProgrammingError\<close>).
\<close>

datatype exn = TypeError | CardinalityViolation

text \<open>
  A \<open>Q\<close> object passed in \<open>filters\<close>: a condition on the Edition's own columns, or
  \<open>Q(shelfbook__user=user)\<close>, which joins the ShelfBook table. \<open>join_rows\<close> is how many
  joined rows one Edition contributes: one per ShelfBook row of that user and book (the
  same book on two shelves of the user appears twice until \<open>distinct()\<close>).
\<close>

datatype q = Q "edition \<Rightarrow> bool" | Q_shelfbook_user nat

fun join_rows :: "catalog \<Rightarrow> q \<Rightarrow> edition \<Rightarrow> nat" where
  "join_rows db (Q p) e = (if p e then 1 else 0)"
| "join_rows db (Q_shelfbook_user user) e =
     length (filter (\<lambda>sb. sb = (user, pk e)) (shelfbooks db))"

text \<open>\<open>objects.filter(*filters)\<close>: every condition must hold.\<close>

definition filter_q :: "catalog \<Rightarrow> q list \<Rightarrow> edition list \<Rightarrow> edition list" where
  "filter_q db filters objects =
     concat (map (\<lambda>e. replicate (prod_list (map (\<lambda>f. join_rows db f e) filters)) e) objects)"

text \<open>
  \<open>start or models.Edition.objects\<close>: \<open>start\<close> when it is given and has a row (an empty
  QuerySet is falsy), the whole table otherwise.
\<close>

definition start_or_objects :: "catalog \<Rightarrow> edition list option \<Rightarrow> edition list" where
  "start_or_objects db start =
     (case start of
        None \<Rightarrow> editions db
      | Some rows \<Rightarrow> if rows = [] then editions db else rows)"

text \<open>
  \<open>.first()\<close> on a QuerySet without an ordering: Django orders it by the primary key
  and takes the first row.
\<close>

definition first :: "row list \<Rightarrow> row option" where
  "first rows = (case sort_key (\<lambda>r. pk (fst r)) rows of [] \<Rightarrow> None | r # _ \<Rightarrow> Some r)"

text \<open>
  \<open>Subquery(qs.values("rank"))\<close> with no \<open>OuterRef\<close> and no slice: a scalar subquery
  that does not depend on the outer row. It is NULL when \<open>qs\<close> has no row, the value
  when it has one row, and an error of the database when it has more.
\<close>

definition scalar_subquery :: "'a list \<Rightarrow> exn + 'a option" where
  "scalar_subquery rows =
     (case rows of
        [] \<Rightarrow> Inr None
      | [v] \<Rightarrow> Inr (Some v)
      | _ # _ # _ \<Rightarrow> Inl CardinalityViolation)"

text \<open>
  Ascending order with NULL last, PostgreSQL's default for \<open>ASC\<close>, and
  \<open>Window(Rank(), partition_by, order_by=key.asc())\<close>: one more than the number of rows
  of the same partition that sort strictly before the row.
\<close>

fun asc_before :: "real option \<Rightarrow> real option \<Rightarrow> bool" where
  "asc_before (Some a) (Some b) = (a < b)"
| "asc_before (Some a) None = True"
| "asc_before None b = False"

definition window_rank ::
  "(edition \<Rightarrow> nat) \<Rightarrow> (edition \<Rightarrow> real option) \<Rightarrow> edition list \<Rightarrow> edition \<Rightarrow> int" where
  "window_rank partition_by order_by rows e =
     1 + int (length (filter
           (\<lambda>e'. partition_by e' = partition_by e \<and> asc_before (order_by e') (order_by e))
           rows))"

section \<open>\<open>search_identifiers\<close>\<close>

text \<open>
  Lines 87 to 106. \<open>or_filters\<close> pairs every deduplication field with the query;
  \<open>reduce(operator.or_, ...)\<close> over no field at all raises.
\<close>

definition search_identifiers ::
  "engine \<Rightarrow> catalog \<Rightarrow> string \<Rightarrow> q list \<Rightarrow> bool \<Rightarrow> edition list option \<Rightarrow> exn + result" where
  "search_identifiers env db query filters return_first start =
     (let query = (if maybe_isbn env query then normalized_isbn query else query);
          or_filters = map (\<lambda>f. (f, query)) (deduplication_fields env);
          objects = start_or_objects db start
      in if or_filters = [] then Inl TypeError
         else
           let results = remdups
                 (filter (\<lambda>e. list_ex (\<lambda>(f, v). column f e = Some v) or_filters)
                    (filter_q db filters objects))
           in if return_first then Inr (Instance (first (plain results)))
              else Inr (QuerySet (plain results)))"

section \<open>\<open>search_title_author\<close>\<close>

text \<open>
  Lines 117 to 122, the QuerySet \<open>results\<close>: the matching rows, annotated with their
  search rank, those above \<open>min_confidence\<close>, by descending rank. Rows of equal rank
  keep their order (the database promises none).
\<close>

definition results_of ::
  "engine \<Rightarrow> catalog \<Rightarrow> string \<Rightarrow> real \<Rightarrow> q list \<Rightarrow> edition list option \<Rightarrow> (edition \<times> real) list" where
  "results_of env db query min_confidence filters start =
     (let objects = start_or_objects db start;
          matching = filter (ts_match env query) (filter_q db filters objects);
          annotated = map (\<lambda>e. (e, ts_rank env query e)) matching;
          above = filter (\<lambda>(e, rank). rank > min_confidence) annotated
      in sort_key (\<lambda>(e, rank). - rank) above)"

text \<open>
  Lines 127 to 139. \<open>subquery\<close> is the whole Edition table, every row annotated with
  \<open>search_rank\<close>, the scalar subquery over \<open>results.values("rank")\<close> (the same value for
  every row, since nothing ties it to the row), and with the window rank. \<open>books\<close> is
  the whole table again, annotated with the scalar subquery over
  \<open>subquery.values("rank")\<close> and filtered by \<open>rank=1\<close>; a NULL rank is not 1. Over an
  empty table the database evaluates no expression.
\<close>

definition books_of :: "catalog \<Rightarrow> (edition \<times> real) list \<Rightarrow> exn + row list" where
  "books_of db results =
     (if editions db = [] then Inr []
      else
        case scalar_subquery (map snd results) of
          Inl err \<Rightarrow> Inl err
        | Inr search_rank \<Rightarrow>
            let subquery = map (\<lambda>e. (e, window_rank parent_work (\<lambda>e. search_rank) (editions db) e))
                             (editions db)
            in (case scalar_subquery (map snd subquery) of
                  Inl err \<Rightarrow> Inl err
                | Inr rank \<Rightarrow>
                    Inr (map (\<lambda>e. (e, Some (case rank of None \<Rightarrow> PyNone | Some n \<Rightarrow> PyInt n)))
                           (filter (\<lambda>e. rank = Some 1) (editions db)))))"

text \<open>
  The function. Without \<open>dedup\<close> the QuerySet \<open>results\<close> is returned as it is, whatever
  \<open>return_first\<close> says (line 125).
\<close>

definition search_title_author ::
  "engine \<Rightarrow> catalog \<Rightarrow> string \<Rightarrow> real \<Rightarrow> q list \<Rightarrow> bool \<Rightarrow> bool \<Rightarrow> edition list option
     \<Rightarrow> exn + result" where
  "search_title_author env db query min_confidence filters return_first dedup start =
     (let results = results_of env db query min_confidence filters start
      in if \<not> dedup then Inr (QuerySet (map (\<lambda>(e, rank). (e, Some (PyFloat rank))) results))
         else
           case books_of db results of
             Inl err \<Rightarrow> Inl err
           | Inr books \<Rightarrow>
               if return_first then Inr (Instance (first books))
               else Inr (QuerySet books))"

section \<open>The dispatch: \<open>_generic_search\<close>, \<open>search\<close>, \<open>search_user_shelves\<close>\<close>

text \<open>
  The result of \<open>_generic_search\<close> comes with the calls it made, in order, each with the
  query it passed. The parameter \<open>dedup\<close> is accepted and never read (lines 31 to 52):
  \<open>search_title_author\<close> is called without it, so its own default \<open>dedup=True\<close> applies.
  \<open>filters\<close> is a list here; \<open>filters or []\<close> of the source turns a missing one into \<open>[]\<close>.
\<close>

datatype call = Call_search_identifiers string | Call_search_title_author string

definition generic_search ::
  "engine \<Rightarrow> catalog \<Rightarrow> string \<Rightarrow> real \<Rightarrow> q list \<Rightarrow> bool \<Rightarrow> bool \<Rightarrow> edition list option
     \<Rightarrow> call list \<times> (exn + result)" where
  "generic_search env db query min_confidence filters return_first dedup start =
     (if query = [] then ([], Inr EmptyList)
      else
        let query = strip query
        in if CHR '' '' \<notin> set query
           then
             (case search_identifiers env db query filters return_first start of
                Inl err \<Rightarrow> ([Call_search_identifiers query], Inl err)
              | Inr results \<Rightarrow>
                  if truthy results then ([Call_search_identifiers query], Inr results)
                  else ([Call_search_identifiers query, Call_search_title_author query],
                        search_title_author env db query min_confidence filters return_first
                          True start))
           else ([Call_search_title_author query],
                 search_title_author env db query min_confidence filters return_first
                   True start))"

definition search ::
  "engine \<Rightarrow> catalog \<Rightarrow> string \<Rightarrow> real \<Rightarrow> q list \<Rightarrow> bool \<Rightarrow> call list \<times> (exn + result)" where
  "search env db query min_confidence filters return_first =
     generic_search env db query min_confidence filters return_first True None"

definition search_user_shelves ::
  "engine \<Rightarrow> catalog \<Rightarrow> string \<Rightarrow> nat \<Rightarrow> real \<Rightarrow> q list \<Rightarrow> bool \<Rightarrow> edition list option
     \<Rightarrow> call list \<times> (exn + result)" where
  "search_user_shelves env db query user min_confidence filters return_first start =
     generic_search env db query min_confidence (filters @ [Q_shelfbook_user user])
       return_first False start"

section \<open>\<open>SearchResult\<close> and \<open>format_search_result\<close>\<close>

text \<open>
  The dataclass, its fields in the order of their declaration: title, key, connector,
  view_link, author, year, cover, confidence. \<open>json\<close> is \<open>asdict\<close> (a dict in that order)
  with the entry \<open>connector\<close> deleted.
\<close>

datatype search_result =
  SearchResult pyval pyval pyval pyval pyval pyval pyval pyval

fun asdict :: "search_result \<Rightarrow> (string \<times> pyval) list" where
  "asdict (SearchResult title' key' connector' view_link' author' year' cover' confidence') =
     [(''title'', title'), (''key'', key'), (''connector'', connector'),
      (''view_link'', view_link'), (''author'', author'), (''year'', year'),
      (''cover'', cover'), (''confidence'', confidence')]"

definition json :: "search_result \<Rightarrow> (string \<times> pyval) list" where
  "json self = filter (\<lambda>(k, v). k \<noteq> ''connector'') (asdict self)"

text \<open>
  Lines 68 to 84. A cover is truthy when the file field has a name; \<open>view_link\<close> keeps
  its default \<open>None\<close>; a date is always truthy.
\<close>

definition format_search_result :: "engine \<Rightarrow> row \<Rightarrow> (string \<times> pyval) list" where
  "format_search_result env search_result =
     (let e = fst search_result;
          cover' = (case cover e of
                     None \<Rightarrow> PyNone
                   | Some path \<Rightarrow> if path = [] then PyNone
                                  else PyStr (MEDIA_FULL_URL env @ path))
      in json (SearchResult
           (PyStr (title e))
           (PyStr (remote_id e))
           (PyStr [])
           PyNone
           (PyStr (author_text e))
           (case published_date e of None \<Rightarrow> PyNone | Some d \<Rightarrow> PyInt (year d))
           cover'
           (case snd search_result of None \<Rightarrow> PyInt 1 | Some rank \<Rightarrow> rank)))"

section \<open>\<open>isbn_search\<close>\<close>

text \<open>
  \<open>Edition.objects.filter(Q(isbn_10=query) | Q(isbn_13=query)).distinct()\<close>; the
  empty query returns \<open>[]\<close> before anything else happens.
\<close>

definition isbn_search :: "catalog \<Rightarrow> string \<Rightarrow> result" where
  "isbn_search db query =
     (if query = [] then EmptyList
      else
        let query = normalized_isbn query
        in QuerySet (plain (remdups
             (filter (\<lambda>e. column ''isbn_10'' e = Some query \<or> column ''isbn_13'' e = Some query)
                (editions db)))))"

section \<open>Example data\<close>

definition philosophers_stone :: edition where
  "philosophers_stone =
     \<lparr> pk = 1, title = ''Harry Potter and the Philosopher's Stone'',
       remote_id = ''https://example.com/book/1'', author_text = ''J. K. Rowling'',
       published_date = Some (1997, 6, 26), cover = Some ''covers/stone.jpg'',
       parent_work = 10, isbn_10 = Some ''0747532699'', isbn_13 = Some ''9780747532699'',
       other_identifiers = [] \<rparr>"

definition sorcerers_stone :: edition where
  "sorcerers_stone =
     \<lparr> pk = 2, title = ''Harry Potter and the Sorcerer's Stone'',
       remote_id = ''https://example.com/book/2'', author_text = ''J. K. Rowling'',
       published_date = None, cover = None,
       parent_work = 10, isbn_10 = Some ''0000000000'', isbn_13 = None,
       other_identifiers = [(''openlibrary_key'', ''OL82592M'')] \<rparr>"

definition two_editions :: catalog where
  "two_editions =
     \<lparr> editions = [philosophers_stone, sorcerers_stone], shelfbooks = [(7, 1), (7, 2)] \<rparr>"

definition one_edition :: catalog where
  "one_edition = \<lparr> editions = [philosophers_stone], shelfbooks = [] \<rparr>"

text \<open>
  A text search that knows three queries, matches them against every Edition and ranks
  the Edition with primary key \<open>n\<close> at \<open>1 / n\<close>; an ISBN test that accepts digits and X.
\<close>

definition example_engine :: engine where
  "example_engine =
     \<lparr> maybe_isbn = (\<lambda>s. s \<noteq> [] \<and> list_all (\<lambda>c. c \<in> set ''0123456789xX'') s),
       deduplication_fields = [''remote_id'', ''isbn_10'', ''isbn_13'', ''openlibrary_key''],
       ts_match = (\<lambda>query e. query \<in> set [''harry potter'', ''potter'', ''stone'']),
       ts_rank = (\<lambda>query e. if query \<in> set [''harry potter'', ''potter'', ''stone'']
                              then 1 / real (pk e) else 0),
       MEDIA_FULL_URL = ''https://example.com/images/'' \<rparr>"

section \<open>Facts about the string operations\<close>

lemma upper_char_idem: "upper_char (upper_char c) = upper_char c"
  by (simp add: upper_char_def)

lemma isspace_upper_char: "isspace (upper_char c) = isspace c"
  by (simp add: upper_char_def isspace_def whitespace_def)

lemma upper_idem: "upper (upper s) = upper s"
  by (simp add: upper_def upper_char_idem)

lemma length_upper: "length (upper s) = length s"
  by (simp add: upper_def)

lemma lstrip_id: "s = [] \<or> \<not> isspace (hd s) \<Longrightarrow> lstrip s = s"
  by (cases s) (auto simp: lstrip_def)

lemma rstrip_id: "s = [] \<or> \<not> isspace (last s) \<Longrightarrow> rstrip s = s"
  by (cases s rule: rev_cases) (auto simp: rstrip_def)

lemma strip_id: "s = [] \<or> (\<not> isspace (hd s) \<and> \<not> isspace (last s)) \<Longrightarrow> strip s = s"
  by (auto simp: strip_def lstrip_id rstrip_id)

lemma rstrip_last: "rstrip s \<noteq> [] \<Longrightarrow> \<not> isspace (last (rstrip s))"
  unfolding rstrip_def
  by (metis hd_dropWhile last_rev rev_is_Nil_conv)

lemma lstrip_hd: "lstrip s \<noteq> [] \<Longrightarrow> \<not> isspace (hd (lstrip s))"
  unfolding lstrip_def by (simp add: hd_dropWhile)

lemma lstrip_last: "lstrip s \<noteq> [] \<Longrightarrow> last (lstrip s) = last s"
  unfolding lstrip_def
  by (metis last_appendR takeWhile_dropWhile_id)

lemma strip_hd: "strip s \<noteq> [] \<Longrightarrow> \<not> isspace (hd (strip s))"
  unfolding strip_def by (rule lstrip_hd)

lemma strip_last: "strip s \<noteq> [] \<Longrightarrow> \<not> isspace (last (strip s))"
proof -
  assume ne: "strip s \<noteq> []"
  then have "rstrip s \<noteq> []" by (auto simp: strip_def lstrip_def)
  then have "\<not> isspace (last (rstrip s))" by (rule rstrip_last)
  with ne show ?thesis by (simp add: strip_def lstrip_last)
qed

lemma strip_idem: "strip (strip s) = strip s"
  by (rule strip_id) (use strip_hd strip_last in blast)

lemma zero_not_space: "\<not> isspace (CHR ''0'')"
  by (simp add: isspace_def whitespace_def)

lemma upper_zero: "upper_char (CHR ''0'') = CHR ''0''"
  by (simp add: upper_char_def)

lemma hd_upper: "s \<noteq> [] \<Longrightarrow> hd (upper s) = upper_char (hd s)"
  by (simp add: upper_def hd_map)

lemma last_upper: "s \<noteq> [] \<Longrightarrow> last (upper s) = upper_char (last s)"
  by (simp add: upper_def last_map)

lemma length_rjust: "length (rjust w c s) = max w (length s)"
  by (simp add: rjust_def)

lemma rjust_id: "w \<le> length s \<Longrightarrow> rjust w c s = s"
  by (simp add: rjust_def)

lemma length_normalized_isbn: "10 \<le> length (normalized_isbn s)"
  by (simp add: normalized_isbn_def length_rjust)

lemma normalized_isbn_hd: "\<not> isspace (hd (normalized_isbn s))"
proof (cases "length (upper (strip s)) < 10")
  case True
  then have "hd (normalized_isbn s) = CHR ''0''"
    by (simp add: normalized_isbn_def rjust_def hd_append)
  then show ?thesis by (simp add: zero_not_space)
next
  case False
  then have ne: "strip s \<noteq> []" by (auto simp: length_upper)
  from False have "normalized_isbn s = upper (strip s)"
    by (simp add: normalized_isbn_def rjust_def)
  with ne show ?thesis
    by (simp add: hd_upper isspace_upper_char strip_hd)
qed

lemma normalized_isbn_last: "\<not> isspace (last (normalized_isbn s))"
proof (cases "strip s = []")
  case True
  then show ?thesis
    by (simp add: normalized_isbn_def rjust_def upper_def zero_not_space)
next
  case False
  then have "upper (strip s) \<noteq> []" by (simp add: upper_def)
  then have "last (normalized_isbn s) = last (upper (strip s))"
    by (simp add: normalized_isbn_def rjust_def)
  with False show ?thesis
    by (simp add: last_upper isspace_upper_char strip_last)
qed

lemma upper_normalized_isbn: "upper (normalized_isbn s) = normalized_isbn s"
  by (simp add: normalized_isbn_def rjust_def upper_def upper_char_idem upper_zero)

lemma strip_all_space: "\<forall>c\<in>set s. isspace c \<Longrightarrow> strip s = []"
  by (auto simp: strip_def lstrip_def rstrip_def dest: set_dropWhileD)

lemma ten_zeros: "replicate 10 (CHR ''0'') = ''0000000000''"
  by (simp add: eval_nat_numeral)

lemma column_isbn_10: "column ''isbn_10'' e = isbn_10 e"
  by (simp add: column_def)

lemma column_isbn_13: "column ''isbn_13'' e = isbn_13 e"
  by (simp add: column_def)

section \<open>Facts about the queries\<close>

lemma scalar_subquery_Inr: "scalar_subquery rows = Inr v \<Longrightarrow> length rows \<le> 1"
  by (auto simp: scalar_subquery_def split: list.splits)




lemma first_Nil: "first [] = None"
  by (simp add: first_def)

lemma first_single: "first [r] = Some r"
  by (simp add: first_def)


lemma results_of_rank:
  "(e, r) \<in> set (results_of env db query mc fs st) \<Longrightarrow> r = ts_rank env query e \<and> mc < r"
  by (auto simp: results_of_def Let_def)



lemma generic_search_ignores_dedup:
  "generic_search env db query mc fs rf False st = generic_search env db query mc fs rf True st"
  by (simp add: generic_search_def)

lemma results_above_min_confidence:
  "search_title_author env db query min_confidence filters return_first False start
     = Inr (QuerySet rows) \<Longrightarrow> (e, a) \<in> set rows \<Longrightarrow>
   a = Some (PyFloat (ts_rank env query e)) \<and> min_confidence < ts_rank env query e"
  by (auto simp: search_title_author_def Let_def dest: results_of_rank)

section \<open>The example catalogs, evaluated\<close>

lemmas example_defs = example_engine_def one_edition_def two_editions_def
  philosophers_stone_def sorcerers_stone_def

lemmas string_defs = strip_def lstrip_def rstrip_def isspace_def whitespace_def upper_def
  upper_char_def rjust_def normalized_isbn_def

lemmas query_defs = search_def search_user_shelves_def generic_search_def
  search_identifiers_def search_title_author_def results_of_def books_of_def
  scalar_subquery_def window_rank_def start_or_objects_def filter_q_def first_def plain_def
  column_def

lemma search_dune_one_edition: "search example_engine one_edition ''dune'' 0 [] False
   = ([Call_search_identifiers ''dune'', Call_search_title_author ''dune''],
       Inr (QuerySet [(philosophers_stone, Some (PyInt 1))]))"
  by (simp add: query_defs string_defs example_defs Let_def)

lemma shelves_potter_two_editions: "search_user_shelves example_engine two_editions ''harry potter'' 7 0 [] False None
   = ([Call_search_title_author ''harry potter''], Inl CardinalityViolation)"
  by (simp add: query_defs string_defs example_defs Let_def)



lemma search_spaces_two_editions: "search example_engine two_editions ''  '' 0 [] False
   = ([Call_search_identifiers [], Call_search_title_author []], Inl CardinalityViolation)"
  by (simp add: query_defs string_defs example_defs Let_def)

lemma search_isbn_two_editions: "search example_engine two_editions '' 747532699 '' 0 [] False
   = ([Call_search_identifiers ''747532699''], Inr (QuerySet [(philosophers_stone, None)]))"
  by (simp add: query_defs string_defs example_defs Let_def)


section \<open>The dispatch\<close>

text \<open>
  Claim C1 says that \<open>search_user_shelves\<close> does not deduplicate by Work. The code passes
  \<open>dedup=False\<close> to \<open>_generic_search\<close>, which never hands it on: a search of a user's
  shelves is the deduplicating \<open>search\<close> with one more filter. On a catalog with two
  shelved editions of one Work, both matching the query, the deduplicating query is
  what runs, and it does not return the two editions (its scalar subquery over two
  rows raises).
\<close>

theorem search_user_shelves_deduplicates:
  "search_user_shelves env db query user min_confidence filters return_first None
     = search env db query min_confidence (filters @ [Q_shelfbook_user user]) return_first
   \<and> search_user_shelves example_engine two_editions ''harry potter'' 7 0 [] False None
     = ([Call_search_title_author ''harry potter''], Inl CardinalityViolation)"
proof -
  have "search_user_shelves env db query user min_confidence filters return_first None
     = search env db query min_confidence (filters @ [Q_shelfbook_user user]) return_first"
    by (simp add: search_user_shelves_def search_def generic_search_ignores_dedup)
  with shelves_potter_two_editions show ?thesis by simp
qed

text \<open>
  Claim C2 says that \<open>search\<close> returns at once on an empty query and on a query of
  whitespace only. On the query of two spaces the identifier lookup and the text search
  are both called, with the stripped query.
\<close>

theorem search_whitespace_query_counterexample:
  "fst (search example_engine two_editions ''  '' 0 [] False)
     = [Call_search_identifiers [], Call_search_title_author []]"
  by (simp add: search_spaces_two_editions)

text \<open>
  Claim C2 as amended. On the empty query \<open>search\<close> returns \<open>[]\<close> with no call made and
  no error. A query that is not empty and consists of whitespace is not returned
  early: it is stripped to the empty string, and the identifier lookup is called
  with it.
\<close>

theorem search_empty_query:
  "search env db [] min_confidence filters return_first = ([], Inr EmptyList)
   \<and> (query \<noteq> [] \<and> (\<forall>c\<in>set query. isspace c) \<longrightarrow>
        (\<exists>rest. fst (search env db query min_confidence filters return_first)
                  = Call_search_identifiers [] # rest))"
proof (intro conjI impI)
  show "search env db [] min_confidence filters return_first = ([], Inr EmptyList)"
    by (simp add: search_def generic_search_def)
next
  assume "query \<noteq> [] \<and> (\<forall>c\<in>set query. isspace c)"
  then have "query \<noteq> []" and "strip query = []"
    by (simp_all add: strip_all_space)
  then show "\<exists>rest. fst (search env db query min_confidence filters return_first)
                  = Call_search_identifiers [] # rest"
    by (simp add: search_def generic_search_def Let_def split: sum.splits)
qed

theorem search_empty_query_witness:
  "search example_engine two_editions [] 0 [] False = ([], Inr EmptyList)
   \<and> (\<exists>rest. fst (search example_engine two_editions ''  '' 0 [] False)
                  = Call_search_identifiers [] # rest)"
proof -
  have sp: "''  '' \<noteq> [] \<and> (\<forall>c\<in>set ''  ''. isspace c)"
    by (simp add: isspace_def whitespace_def)
  from search_empty_query [of example_engine two_editions 0 "[]" False "''  ''"] sp
  show ?thesis by blast
qed

section \<open>The text search and the deduplicating query\<close>



text \<open>
  Claim C4 says that no Edition returned by the text search has a rank at or below
  \<open>min_confidence\<close>, in the ranked sequence and in the deduplicated result of \<open>search\<close>.
  The ranked sequence keeps the promise (\<open>results_above_min_confidence\<close>). The
  deduplicating query reads the whole table again: on a catalog of one Edition,
  \<open>search\<close> for a query that does not match it, with \<open>min_confidence = 0\<close>, returns that
  Edition, whose search rank is 0; the \<open>rank\<close> it carries is the window rank 1.
\<close>

theorem search_returns_unranked_edition:
  "search example_engine one_edition ''dune'' 0 [] False
     = ([Call_search_identifiers ''dune'', Call_search_title_author ''dune''],
        Inr (QuerySet [(philosophers_stone, Some (PyInt 1))]))
   \<and> \<not> ts_match example_engine ''dune'' philosophers_stone
   \<and> ts_rank example_engine ''dune'' philosophers_stone = 0"
  by (simp add: search_dune_one_edition) (simp add: example_engine_def)



text \<open>
  Claim C6. For a query that is not empty: when the stripped query contains a space,
  the text search is the only call; when it contains none, the identifier lookup is
  called first, the text search is called after it exactly when the lookup returned
  a falsy result (no row, or \<open>None\<close>), and otherwise the result of the lookup is the
  result of \<open>search\<close>.
\<close>

theorem search_dispatch:
  assumes "query \<noteq> []"
  shows "(CHR '' '' \<in> set (strip query) \<longrightarrow>
            fst (search env db query min_confidence filters return_first)
              = [Call_search_title_author (strip query)])
       \<and> (CHR '' '' \<notin> set (strip query) \<longrightarrow>
            (\<exists>rest. fst (search env db query min_confidence filters return_first)
                      = Call_search_identifiers (strip query) # rest
                  \<and> (rest = [] \<or> rest = [Call_search_title_author (strip query)])
                  \<and> (rest \<noteq> [] \<longleftrightarrow>
                       (\<exists>r. search_identifiers env db (strip query) filters return_first None = Inr r
                            \<and> \<not> truthy r))
                  \<and> (rest = [] \<longrightarrow>
                       snd (search env db query min_confidence filters return_first)
                         = search_identifiers env db (strip query) filters return_first None)))"
  using assms
  by (auto simp: search_def generic_search_def Let_def split: sum.splits)

theorem search_dispatch_witness:
  "fst (search example_engine one_edition ''harry potter'' 0 [] False)
     = [Call_search_title_author ''harry potter'']
   \<and> fst (search example_engine two_editions '' 747532699 '' 0 [] False)
     = [Call_search_identifiers ''747532699'']
   \<and> fst (search example_engine one_edition ''dune'' 0 [] False)
     = [Call_search_identifiers ''dune'', Call_search_title_author ''dune'']"
proof -
  have s1: "strip ''harry potter'' = ''harry potter''"
    by (simp add: string_defs)
  have "fst (search example_engine one_edition ''harry potter'' 0 [] False)
     = [Call_search_title_author ''harry potter'']"
    using search_dispatch [of "''harry potter''" example_engine one_edition 0 "[]" False]
    by (simp add: s1)
  then show ?thesis by (simp add: search_isbn_two_editions search_dune_one_edition)
qed

section \<open>ISBN normalization and \<open>isbn_search\<close>\<close>



text \<open>
  Claim C8. The ISBN normalization (strip whitespace, uppercase, left-pad with zeros to
  at least ten characters) is idempotent: for every string, normalizing twice gives
  what normalizing once gives.
\<close>

theorem normalized_isbn_idempotent: "normalized_isbn (normalized_isbn s) = normalized_isbn s"
proof -
  have "strip (normalized_isbn s) = normalized_isbn s"
    by (rule strip_id) (simp add: normalized_isbn_hd normalized_isbn_last)
  then have "normalized_isbn (normalized_isbn s) = rjust 10 (CHR ''0'') (normalized_isbn s)"
    by (simp add: normalized_isbn_def[of "normalized_isbn s"] upper_normalized_isbn)
  also have "\<dots> = normalized_isbn s"
    by (rule rjust_id) (rule length_normalized_isbn)
  finally show ?thesis .
qed

section \<open>\<open>format_search_result\<close>\<close>

text \<open>
  Claim C9. \<open>format_search_result\<close> returns a mapping with exactly the keys title, key,
  view_link, author, year, cover and confidence (no connector); cover is \<open>None\<close> when
  the Edition has no cover and \<open>MEDIA_FULL_URL\<close> followed by the cover's path otherwise;
  confidence is the annotated rank when there is one and 1 otherwise.
\<close>

theorem format_search_result_keys:
  "map fst (format_search_result env (e, rank))
     = [''title'', ''key'', ''view_link'', ''author'', ''year'', ''cover'', ''confidence'']
   \<and> map_of (format_search_result env (e, rank)) ''cover''
     = Some (case cover e of
               None \<Rightarrow> PyNone
             | Some path \<Rightarrow> if path = [] then PyNone else PyStr (MEDIA_FULL_URL env @ path))
   \<and> map_of (format_search_result env (e, rank)) ''confidence''
     = Some (case rank of None \<Rightarrow> PyInt 1 | Some r \<Rightarrow> r)
   \<and> map_of (format_search_result env (e, rank)) ''connector'' = None"
  by (simp add: format_search_result_def json_def Let_def)

theorem format_search_result_keys_witness:
  "format_search_result example_engine (sorcerers_stone, Some (PyFloat (1 / 2)))
     = [(''title'', PyStr ''Harry Potter and the Sorcerer's Stone''),
        (''key'', PyStr ''https://example.com/book/2''), (''view_link'', PyNone),
        (''author'', PyStr ''J. K. Rowling''), (''year'', PyNone),
        (''cover'', PyNone), (''confidence'', PyFloat (1 / 2))]
   \<and> map_of (format_search_result example_engine (philosophers_stone, None)) ''cover''
       = Some (PyStr ''https://example.com/images/covers/stone.jpg'')
   \<and> map_of (format_search_result example_engine (philosophers_stone, None)) ''confidence''
       = Some (PyInt 1)"
proof -
  have a: "format_search_result example_engine (sorcerers_stone, Some (PyFloat (1 / 2)))
     = [(''title'', PyStr ''Harry Potter and the Sorcerer's Stone''),
        (''key'', PyStr ''https://example.com/book/2''), (''view_link'', PyNone),
        (''author'', PyStr ''J. K. Rowling''), (''year'', PyNone),
        (''cover'', PyNone), (''confidence'', PyFloat (1 / 2))]"
    by (simp add: format_search_result_def json_def Let_def example_defs)
  from a format_search_result_keys [of example_engine philosophers_stone None]
  show ?thesis by (simp add: example_defs)
qed

text \<open>
  Claim C10. Only the empty query makes \<open>isbn_search\<close> return \<open>[]\<close> early. A query that
  is not empty and consists of whitespace is stripped to the empty string and padded
  to ten zeros, and the QuerySet returned holds exactly the Editions whose \<open>isbn_10\<close> or
  \<open>isbn_13\<close> is \<open>0000000000\<close>.
\<close>

theorem isbn_search_whitespace_only:
  "(isbn_search db query = EmptyList \<longleftrightarrow> query = [])
   \<and> (query \<noteq> [] \<and> (\<forall>c\<in>set query. isspace c) \<longrightarrow>
        normalized_isbn query = ''0000000000''
        \<and> (\<exists>es. isbn_search db query = QuerySet (plain es) \<and> distinct es
              \<and> set es = {e \<in> set (editions db).
                    isbn_10 e = Some ''0000000000'' \<or> isbn_13 e = Some ''0000000000''}))"
proof (intro conjI impI)
  show "isbn_search db query = EmptyList \<longleftrightarrow> query = []"
    by (simp add: isbn_search_def Let_def)
next
  assume a: "query \<noteq> [] \<and> (\<forall>c\<in>set query. isspace c)"
  then show n: "normalized_isbn query = ''0000000000''"
    by (simp add: normalized_isbn_def strip_all_space upper_def rjust_def ten_zeros)
  let ?es = "remdups (filter (\<lambda>e. isbn_10 e = Some ''0000000000'' \<or> isbn_13 e = Some ''0000000000'')
                (editions db))"
  from a n have "isbn_search db query = QuerySet (plain ?es)"
    by (simp add: isbn_search_def Let_def column_isbn_10 column_isbn_13)
  moreover have "distinct ?es" by simp
  moreover have "set ?es = {e \<in> set (editions db).
                    isbn_10 e = Some ''0000000000'' \<or> isbn_13 e = Some ''0000000000''}"
    by auto
  ultimately show "\<exists>es. isbn_search db query = QuerySet (plain es) \<and> distinct es
              \<and> set es = {e \<in> set (editions db).
                    isbn_10 e = Some ''0000000000'' \<or> isbn_13 e = Some ''0000000000''}"
    by blast
qed

theorem isbn_search_whitespace_only_witness:
  "isbn_search two_editions ''  '' \<noteq> EmptyList
   \<and> normalized_isbn ''  '' = ''0000000000''
   \<and> isbn_search two_editions ''  '' = QuerySet [(sorcerers_stone, None)]"
proof -
  have sp: "''  '' \<noteq> [] \<and> (\<forall>c\<in>set ''  ''. isspace c)"
    by (simp add: isspace_def whitespace_def)
  have n: "normalized_isbn ''  '' = ''0000000000''"
    using isbn_search_whitespace_only [of two_editions "''  ''"] sp by blast
  have e: "isbn_search two_editions ''  '' \<noteq> EmptyList"
    using isbn_search_whitespace_only [of two_editions "''  ''"] by simp
  have c: "isbn_search two_editions ''  '' = QuerySet [(sorcerers_stone, None)]"
    by (simp add: isbn_search_def Let_def n column_isbn_10 column_isbn_13 two_editions_def plain_def
        philosophers_stone_def sorcerers_stone_def)
  from n e c show ?thesis by simp
qed

end
